theory Spec2Isabelle
  imports Main "HOL-Library.Word"
begin

section \<open>Python values and the primitive operations the webhook code uses\<close>

text \<open>
  A Python \<open>str\<close> is a sequence of Unicode code points; \<open>bytes\<close> is a sequence of
  octets. String literals of the source are written \<open>lit ''...''\<close>.
\<close>

type_synonym str = "nat list"
type_synonym bytes = "8 word list"

definition lit :: "string \<Rightarrow> str" where
  "lit cs = map of_char cs"

text \<open>
  The values \<open>json.loads\<close> produces: \<open>None\<close>, \<open>bool\<close>, \<open>int\<close> (unbounded),
  \<open>float\<close> (an IEEE double, kept as its 64 bits; the code never computes with it),
  \<open>str\<close>, \<open>list\<close> and \<open>dict\<close> with \<open>str\<close> keys. A dict is an association list in
  insertion order; lookup takes the first binding of a key. (A dict that \<open>json.loads\<close>
  builds has every key once; nothing below depends on it.)
\<close>

datatype json =
    JNull
  | JBool bool
  | JInt int
  | JFloat "64 word"
  | JStr str
  | JList "json list"
  | JDict "(str \<times> json) list"

text \<open>The exceptions that can leave the webhook code, with the argument where the code gives one.\<close>

datatype error =
    KeyError str
  | TypeError
  | AttributeError
  | UnicodeEncodeError
  | JSONDecodeError
  | WebhookVerificationError string
  | OtherError string

definition bind :: "error + 'a \<Rightarrow> ('a \<Rightarrow> error + 'b) \<Rightarrow> error + 'b" where
  "bind r f = (case r of Inl e \<Rightarrow> Inl e | Inr x \<Rightarrow> f x)"

text \<open>\<open>x[k]\<close> with a \<open>str\<close> key: only a dict can be subscripted by a string.\<close>

fun getitem :: "json \<Rightarrow> str \<Rightarrow> error + json" where
  "getitem (JDict m) k = (case map_of m k of None \<Rightarrow> Inl (KeyError k) | Some v \<Rightarrow> Inr v)"
| "getitem _ k = Inl TypeError"

text \<open>\<open>x.get(k, d)\<close>: only a dict has the method.\<close>

fun get_default :: "json \<Rightarrow> str \<Rightarrow> json \<Rightarrow> error + json" where
  "get_default (JDict m) k d = (case map_of m k of None \<Rightarrow> Inr d | Some v \<Rightarrow> Inr v)"
| "get_default _ k d = Inl AttributeError"

text \<open>\<open>s.startswith(p)\<close>, \<open>s.removeprefix(p)\<close> and the substring test \<open>k in s\<close> on \<open>str\<close>.\<close>

definition startswith :: "str \<Rightarrow> str \<Rightarrow> bool" where
  "startswith s p = (take (length p) s = p)"

definition removeprefix :: "str \<Rightarrow> str \<Rightarrow> str" where
  "removeprefix s p = (if startswith s p then drop (length p) s else s)"

fun substring :: "str \<Rightarrow> str \<Rightarrow> bool" where
  "substring k [] = (k = [])"
| "substring k (c # cs) = (startswith (c # cs) k \<or> substring k cs)"

text \<open>\<open>k in x\<close> for a \<open>str\<close> \<open>k\<close>: key of a dict, element of a list, substring of a string.\<close>

fun contains :: "str \<Rightarrow> json \<Rightarrow> error + bool" where
  "contains k (JDict m) = Inr (map_of m k \<noteq> None)"
| "contains k (JList xs) = Inr (JStr k \<in> set xs)"
| "contains k (JStr s) = Inr (substring k s)"
| "contains k _ = Inl TypeError"

text \<open>\<open>for x in v\<close>: the elements of a list, the keys of a dict, the characters of a string.\<close>

fun iter :: "json \<Rightarrow> error + json list" where
  "iter (JList xs) = Inr xs"
| "iter (JDict m) = Inr (map (\<lambda>kv. JStr (fst kv)) m)"
| "iter (JStr s) = Inr (map (\<lambda>c. JStr [c]) s)"
| "iter _ = Inl TypeError"

text \<open>A list comprehension \<open>[f(x) for x in xs]\<close>: left to right, the first exception leaves it.\<close>

fun list_comp :: "('a \<Rightarrow> error + 'b) \<Rightarrow> 'a list \<Rightarrow> error + 'b list" where
  "list_comp f [] = Inr []"
| "list_comp f (x # xs) = bind (f x) (\<lambda>y. bind (list_comp f xs) (\<lambda>ys. Inr (y # ys)))"

text \<open>
  \<open>s.encode()\<close>: UTF-8; a surrogate code point has no encoding and raises
  \<open>UnicodeEncodeError\<close>.
\<close>

definition utf8 :: "nat \<Rightarrow> error + bytes" where
  "utf8 c =
    (if c < 0x80 then Inr [of_nat c]
     else if c < 0x800 then Inr [of_nat (0xC0 + c div 0x40), of_nat (0x80 + c mod 0x40)]
     else if c < 0x10000 then
       (if 0xD800 \<le> c \<and> c \<le> 0xDFFF then Inl UnicodeEncodeError
        else Inr [of_nat (0xE0 + c div 0x1000), of_nat (0x80 + (c div 0x40) mod 0x40),
                  of_nat (0x80 + c mod 0x40)])
     else Inr [of_nat (0xF0 + c div 0x40000), of_nat (0x80 + (c div 0x1000) mod 0x40),
               of_nat (0x80 + (c div 0x40) mod 0x40), of_nat (0x80 + c mod 0x40)])"

definition encode :: "str \<Rightarrow> error + bytes" where
  "encode s = bind (list_comp utf8 s) (\<lambda>bs. Inr (concat bs))"

text \<open>
  \<open>hmac.new(key, msg, hashlib.sha256).hexdigest()\<close>: the digest function is the
  library's and is a parameter \<open>hm\<close> here; \<open>hexdigest\<close> writes each octet of the digest
  as two lowercase hexadecimal digits.
\<close>

definition hexchar :: "nat \<Rightarrow> nat" where
  "hexchar n = (if n < 10 then 48 + n else 87 + n)"

definition hexdigest :: "bytes \<Rightarrow> str" where
  "hexdigest bs = concat (map (\<lambda>b. [hexchar (unat b div 16), hexchar (unat b mod 16)]) bs)"

text \<open>
  \<open>hmac.compare_digest(a, b)\<close> on two \<open>str\<close>: both must be ASCII, otherwise
  \<open>TypeError\<close>; the result is their equality.
\<close>

definition is_ascii :: "str \<Rightarrow> bool" where
  "is_ascii s = list_all (\<lambda>c. c < 128) s"

definition compare_digest :: "str \<Rightarrow> str \<Rightarrow> error + bool" where
  "compare_digest a b = (if is_ascii a \<and> is_ascii b then Inr (a = b) else Inl TypeError)"

section \<open>Signature verification\<close>

text \<open>\<open>verify_signature\<close>: the prefix check, then the digest of the body under the encoded secret.\<close>

definition verify_signature :: "(bytes \<Rightarrow> bytes \<Rightarrow> bytes) \<Rightarrow> bytes \<Rightarrow> str \<Rightarrow> str \<Rightarrow> error + unit" where
  "verify_signature hm body signature app_secret =
    (if \<not> startswith signature (lit ''sha256='')
     then Inl (WebhookVerificationError ''Invalid signature format: missing 'sha256=' prefix'')
     else bind (encode app_secret) (\<lambda>key.
       let expected = hexdigest (hm key body);
           received = removeprefix signature (lit ''sha256='')
       in bind (compare_digest expected received) (\<lambda>same.
            if \<not> same then Inl (WebhookVerificationError ''Signature mismatch'')
            else Inr ())))"

section \<open>Webhook payload types\<close>

text \<open>
  The dataclasses of the source. A dataclass does not check the type of what it is given,
  so a field filled from the payload holds whatever JSON value was there (\<open>None\<close> is
  \<open>JNull\<close>); a field the code builds itself has its own type.
\<close>

datatype WebhookMetadata = WebhookMetadata (display_phone_number: json) (phone_number_id: json)

datatype WebhookContact = WebhookContact (wa_id: json) (contact_name: json)

datatype MessageContext = MessageContext (context_from: json) (context_id: json)

text \<open>
  Fields in the order of the source: \<open>TextContent body\<close>,
  \<open>MediaContent id mime_type sha256 caption\<close>,
  \<open>LocationContent latitude longitude name address\<close>, \<open>ButtonReplyContent id title\<close>,
  \<open>ListReplyContent id title description\<close>, \<open>ReactionContent message_id emoji\<close>,
  \<open>UnsupportedContent raw\<close>.
\<close>

datatype MessageContent =
    TextContent json
  | MediaContent json json json json
  | LocationContent json json json json
  | ButtonReplyContent json json
  | ListReplyContent json json json
  | ReactionContent json json
  | UnsupportedContent json

record Message =
  msg_id :: json
  msg_from :: json
  msg_timestamp :: json
  msg_type :: json
  content :: MessageContent
  msg_context :: "MessageContext option"

datatype StatusError = StatusError (code: json) (title: json)

datatype ConversationOrigin = ConversationOrigin (origin_type: json)

datatype Conversation = Conversation (conversation_id: json) (origin: ConversationOrigin)

datatype Pricing = Pricing (billable: json) (pricing_model: json) (category: json)

record Status =
  status_id :: json
  status :: json
  status_timestamp :: json
  recipient_id :: json
  conversation :: "Conversation option"
  pricing :: "Pricing option"
  errors :: "StatusError list option"

record WebhookNotification =
  metadata :: WebhookMetadata
  contacts :: "WebhookContact list"
  messages :: "Message list"
  statuses :: "Status list"

section \<open>The notification parser\<close>

definition media_types :: "str list" where
  "media_types = [lit ''image'', lit ''video'', lit ''audio'', lit ''document'', lit ''sticker'']"

text \<open>
  \<open>_parse_content\<close>: the \<open>match\<close> on \<open>msg.get("type", "")\<close>. A subject that is not a
  \<open>str\<close> equals none of the literal patterns and reaches \<open>case _\<close>.
\<close>

definition parse_content :: "json \<Rightarrow> error + MessageContent" where
  "parse_content msg =
    bind (get_default msg (lit ''type'') (JStr (lit []))) (\<lambda>mt.
      case mt of
        JStr t \<Rightarrow>
          if t = lit ''text'' then
            bind (getitem msg (lit ''text'')) (\<lambda>text.
            bind (getitem text (lit ''body'')) (\<lambda>b. Inr (TextContent b)))
          else if t \<in> set media_types then
            bind (getitem msg t) (\<lambda>media.
            bind (getitem media (lit ''id'')) (\<lambda>i.
            bind (getitem media (lit ''mime_type'')) (\<lambda>mime.
            bind (getitem media (lit ''sha256'')) (\<lambda>sha.
            bind (get_default media (lit ''caption'') JNull) (\<lambda>cap.
              Inr (MediaContent i mime sha cap))))))
          else if t = lit ''location'' then
            bind (getitem msg (lit ''location'')) (\<lambda>loc.
            bind (getitem loc (lit ''latitude'')) (\<lambda>lat.
            bind (getitem loc (lit ''longitude'')) (\<lambda>lon.
            bind (get_default loc (lit ''name'') JNull) (\<lambda>nm.
            bind (get_default loc (lit ''address'') JNull) (\<lambda>ad.
              Inr (LocationContent lat lon nm ad))))))
          else if t = lit ''button'' then
            bind (getitem msg (lit ''button'')) (\<lambda>button.
            bind (getitem button (lit ''payload'')) (\<lambda>p.
            bind (getitem button (lit ''text'')) (\<lambda>tx. Inr (ButtonReplyContent p tx))))
          else if t = lit ''interactive'' then
            bind (getitem msg (lit ''interactive'')) (\<lambda>interactive.
            bind (get_default interactive (lit ''type'') (JStr (lit []))) (\<lambda>interactive_type.
              if interactive_type = JStr (lit ''button_reply'') then
                bind (getitem interactive (lit ''button_reply'')) (\<lambda>reply.
                bind (getitem reply (lit ''id'')) (\<lambda>i.
                bind (getitem reply (lit ''title'')) (\<lambda>ti. Inr (ButtonReplyContent i ti))))
              else if interactive_type = JStr (lit ''list_reply'') then
                bind (getitem interactive (lit ''list_reply'')) (\<lambda>reply.
                bind (getitem reply (lit ''id'')) (\<lambda>i.
                bind (getitem reply (lit ''title'')) (\<lambda>ti.
                bind (get_default reply (lit ''description'') JNull) (\<lambda>de.
                  Inr (ListReplyContent i ti de)))))
              else Inr (UnsupportedContent msg)))
          else if t = lit ''reaction'' then
            bind (getitem msg (lit ''reaction'')) (\<lambda>reaction.
            bind (getitem reaction (lit ''message_id'')) (\<lambda>mid.
            bind (getitem reaction (lit ''emoji'')) (\<lambda>em. Inr (ReactionContent mid em))))
          else Inr (UnsupportedContent msg)
      | _ \<Rightarrow> Inr (UnsupportedContent msg))"

text \<open>\<open>_parse_message\<close>: the context first, then the constructor's arguments in order.\<close>

definition parse_message :: "json \<Rightarrow> error + Message" where
  "parse_message msg =
    bind (contains (lit ''context'') msg) (\<lambda>has_context.
    bind (if has_context then
            bind (getitem msg (lit ''context'')) (\<lambda>ctx.
            bind (getitem ctx (lit ''from'')) (\<lambda>f.
            bind (getitem ctx (lit ''id'')) (\<lambda>i. Inr (Some (MessageContext f i)))))
          else Inr None) (\<lambda>ctxt.
    bind (getitem msg (lit ''id'')) (\<lambda>i.
    bind (getitem msg (lit ''from'')) (\<lambda>f.
    bind (getitem msg (lit ''timestamp'')) (\<lambda>ts.
    bind (get_default msg (lit ''type'') (JStr (lit []))) (\<lambda>ty.
    bind (parse_content msg) (\<lambda>c.
      Inr \<lparr>msg_id = i, msg_from = f, msg_timestamp = ts, msg_type = ty,
           content = c, msg_context = ctxt\<rparr>)))))))"

text \<open>\<open>_parse_status\<close>: the three optional parts first, then the four required keys.\<close>

definition parse_status_error :: "json \<Rightarrow> error + StatusError" where
  "parse_status_error e =
    bind (getitem e (lit ''code'')) (\<lambda>c.
    bind (getitem e (lit ''title'')) (\<lambda>t. Inr (StatusError c t)))"

definition parse_status :: "json \<Rightarrow> error + Status" where
  "parse_status raw =
    bind (contains (lit ''conversation'') raw) (\<lambda>has_conversation.
    bind (if has_conversation then
            bind (getitem raw (lit ''conversation'')) (\<lambda>conv.
            bind (getitem conv (lit ''id'')) (\<lambda>i.
            bind (getitem conv (lit ''origin'')) (\<lambda>orig.
            bind (getitem orig (lit ''type'')) (\<lambda>ot.
              Inr (Some (Conversation i (ConversationOrigin ot)))))))
          else Inr None) (\<lambda>conv_opt.
    bind (contains (lit ''pricing'') raw) (\<lambda>has_pricing.
    bind (if has_pricing then
            bind (getitem raw (lit ''pricing'')) (\<lambda>p.
            bind (getitem p (lit ''billable'')) (\<lambda>b.
            bind (getitem p (lit ''pricing_model'')) (\<lambda>pm.
            bind (getitem p (lit ''category'')) (\<lambda>cat. Inr (Some (Pricing b pm cat))))))
          else Inr None) (\<lambda>pricing_opt.
    bind (contains (lit ''errors'') raw) (\<lambda>has_errors.
    bind (if has_errors then
            bind (getitem raw (lit ''errors'')) (\<lambda>es.
            bind (iter es) (\<lambda>el.
            bind (list_comp parse_status_error el) (\<lambda>r. Inr (Some r))))
          else Inr None) (\<lambda>errors_opt.
    bind (getitem raw (lit ''id'')) (\<lambda>i.
    bind (getitem raw (lit ''status'')) (\<lambda>st.
    bind (getitem raw (lit ''timestamp'')) (\<lambda>ts.
    bind (getitem raw (lit ''recipient_id'')) (\<lambda>rid.
      Inr \<lparr>status_id = i, status = st, status_timestamp = ts, recipient_id = rid,
           conversation = conv_opt, pricing = pricing_opt, errors = errors_opt\<rparr>))))))))))"

text \<open>\<open>from_dict\<close>: the body of the inner loop, the two loops, and the function.\<close>

definition parse_contact :: "json \<Rightarrow> error + WebhookContact" where
  "parse_contact c =
    bind (getitem c (lit ''wa_id'')) (\<lambda>w.
    bind (get_default c (lit ''profile'') (JDict [])) (\<lambda>profile.
    bind (get_default profile (lit ''name'') JNull) (\<lambda>n. Inr (WebhookContact w n))))"

definition parse_change :: "json \<Rightarrow> error + WebhookNotification" where
  "parse_change change =
    bind (get_default change (lit ''value'') (JDict [])) (\<lambda>val.
    bind (get_default val (lit ''metadata'') (JDict [])) (\<lambda>meta.
    bind (get_default meta (lit ''display_phone_number'') (JStr (lit []))) (\<lambda>dpn.
    bind (get_default meta (lit ''phone_number_id'') (JStr (lit []))) (\<lambda>pni.
    bind (get_default val (lit ''contacts'') (JList [])) (\<lambda>cv.
    bind (iter cv) (\<lambda>cl.
    bind (list_comp parse_contact cl) (\<lambda>cs.
    bind (get_default val (lit ''messages'') (JList [])) (\<lambda>mv.
    bind (iter mv) (\<lambda>ml.
    bind (list_comp parse_message ml) (\<lambda>ms.
    bind (get_default val (lit ''statuses'') (JList [])) (\<lambda>sv.
    bind (iter sv) (\<lambda>sl.
    bind (list_comp parse_status sl) (\<lambda>ss.
      Inr \<lparr>metadata = WebhookMetadata dpn pni, contacts = cs, messages = ms,
           statuses = ss\<rparr>)))))))))))))"

fun changes_loop :: "json list \<Rightarrow> WebhookNotification list \<Rightarrow> error + WebhookNotification list" where
  "changes_loop [] notifications = Inr notifications"
| "changes_loop (change # rest) notifications =
    bind (parse_change change) (\<lambda>n. changes_loop rest (notifications @ [n]))"

fun entries_loop :: "json list \<Rightarrow> WebhookNotification list \<Rightarrow> error + WebhookNotification list" where
  "entries_loop [] notifications = Inr notifications"
| "entries_loop (entry # rest) notifications =
    bind (get_default entry (lit ''changes'') (JList [])) (\<lambda>cv.
    bind (iter cv) (\<lambda>cl.
    bind (changes_loop cl notifications) (\<lambda>notifications'.
      entries_loop rest notifications')))"

definition from_dict :: "json \<Rightarrow> error + WebhookNotification list" where
  "from_dict data =
    bind (get_default data (lit ''entry'') (JList [])) (\<lambda>ev.
    bind (iter ev) (\<lambda>el. entries_loop el []))"

section \<open>The webhook dispatcher\<close>

text \<open>
  A callback is user code: it may change the world and it may raise. The world is a state
  of type \<open>'st\<close>; a call returns the new state together with \<open>Inr ()\<close>, or with the
  exception it raised. The \<open>await\<close>s of \<open>handle\<close> run one after the other.
\<close>

type_synonym 'st effect = "'st \<Rightarrow> (error + unit) \<times> 'st"

record ('c, 'st) WebhookHandler =
  app_secret :: str
  client :: 'c
  on_message :: "('c \<Rightarrow> WebhookNotification \<Rightarrow> Message \<Rightarrow> 'st effect) option"
  on_status :: "('c \<Rightarrow> WebhookNotification \<Rightarrow> Status \<Rightarrow> 'st effect) option"

text \<open>A \<open>for\<close> loop whose body has effects: the first exception leaves the loop.\<close>

fun for_each :: "('a \<Rightarrow> 'st effect) \<Rightarrow> 'a list \<Rightarrow> 'st effect" where
  "for_each f [] st = (Inr (), st)"
| "for_each f (x # xs) st =
    (case f x st of (Inl e, st') \<Rightarrow> (Inl e, st') | (Inr u, st') \<Rightarrow> for_each f xs st')"

text \<open>The body of the loop over the notifications in \<open>handle\<close>.\<close>

definition dispatch :: "('c, 'st) WebhookHandler \<Rightarrow> WebhookNotification \<Rightarrow> 'st effect" where
  "dispatch h notification st =
    (case (case on_message h of
             None \<Rightarrow> (Inr (), st)
           | Some f \<Rightarrow> for_each (f (client h) notification) (messages notification) st) of
       (Inl e, st') \<Rightarrow> (Inl e, st')
     | (Inr u, st') \<Rightarrow>
         (case on_status h of
            None \<Rightarrow> (Inr (), st')
          | Some g \<Rightarrow> for_each (g (client h) notification) (statuses notification) st'))"

text \<open>
  \<open>handle\<close>; \<open>json.loads\<close> is the library's and is the parameter \<open>loads\<close>, as the digest
  function \<open>hm\<close> is.
\<close>

definition handle ::
  "(bytes \<Rightarrow> bytes \<Rightarrow> bytes) \<Rightarrow> (bytes \<Rightarrow> error + json) \<Rightarrow> ('c, 'st) WebhookHandler \<Rightarrow>
   bytes \<Rightarrow> str \<Rightarrow> 'st effect" where
  "handle hm loads h body signature st =
    (case verify_signature hm body signature (app_secret h) of
       Inl e \<Rightarrow> (Inl e, st)
     | Inr u \<Rightarrow>
        (case loads body of
           Inl e \<Rightarrow> (Inl e, st)
         | Inr data \<Rightarrow>
            (case from_dict data of
               Inl e \<Rightarrow> (Inl e, st)
             | Inr notifications \<Rightarrow> for_each (dispatch h) notifications st)))"

section \<open>Well-formed payloads\<close>

text \<open>
  \<open>ok r\<close>: the call returned, it did not raise. The predicates below describe the shape of
  a payload directly, without running the parser: \<open>lookup j k\<close> is the member \<open>k\<close> of
  the object \<open>j\<close>, if \<open>j\<close> is an object and has it; \<open>has_keys j ks\<close> says that \<open>j\<close> is
  an object with every key of \<open>ks\<close>.
\<close>

definition ok :: "error + 'a \<Rightarrow> bool" where
  "ok r = (case r of Inl e \<Rightarrow> False | Inr x \<Rightarrow> True)"

definition lookup :: "json \<Rightarrow> str \<Rightarrow> json option" where
  "lookup j k = (case j of JDict m \<Rightarrow> map_of m k | _ \<Rightarrow> None)"

definition is_dict :: "json \<Rightarrow> bool" where
  "is_dict j = (case j of JDict m \<Rightarrow> True | _ \<Rightarrow> False)"

definition has_keys :: "json \<Rightarrow> str list \<Rightarrow> bool" where
  "has_keys j ks = (case j of JDict m \<Rightarrow> list_all (\<lambda>k. map_of m k \<noteq> None) ks | _ \<Rightarrow> False)"

definition member_has_keys :: "json \<Rightarrow> str \<Rightarrow> str list \<Rightarrow> bool" where
  "member_has_keys j k ks = (case lookup j k of Some v \<Rightarrow> has_keys v ks | None \<Rightarrow> False)"



text \<open>The four required keys of a status, and the shape of the three optional parts.\<close>

definition required_status_keys :: "str list" where
  "required_status_keys = [lit ''id'', lit ''status'', lit ''timestamp'', lit ''recipient_id'']"

definition elements_ok :: "(json \<Rightarrow> bool) \<Rightarrow> json \<Rightarrow> bool" where
  "elements_ok p v = (case iter v of Inr xs \<Rightarrow> list_all p xs | Inl e \<Rightarrow> False)"

definition optional_parts_ok :: "json \<Rightarrow> bool" where
  "optional_parts_ok raw =
    ((case lookup raw (lit ''conversation'') of
        None \<Rightarrow> True
      | Some conv \<Rightarrow> has_keys conv [lit ''id''] \<and> member_has_keys conv (lit ''origin'') [lit ''type'']) \<and>
     (case lookup raw (lit ''pricing'') of
        None \<Rightarrow> True
      | Some p \<Rightarrow> has_keys p [lit ''billable'', lit ''pricing_model'', lit ''category'']) \<and>
     (case lookup raw (lit ''errors'') of
        None \<Rightarrow> True
      | Some es \<Rightarrow> elements_ok (\<lambda>e. has_keys e [lit ''code'', lit ''title'']) es))"

definition status_ok :: "json \<Rightarrow> bool" where
  "status_ok raw = (optional_parts_ok raw \<and> has_keys raw required_status_keys)"







text \<open>
  The type tags \<open>_parse_content\<close> knows; each consults the sub-object stored under the
  tag itself. A message is incomplete when it is an object that lacks one of \<open>id\<close>,
  \<open>from\<close>, \<open>timestamp\<close>, or has a known tag without the key of that name.
\<close>

definition recognized_types :: "str list" where
  "recognized_types =
    lit ''text'' # media_types @ [lit ''location'', lit ''button'', lit ''interactive'', lit ''reaction'']"



text \<open>\<open>key_error r\<close>: the call raised a \<open>KeyError\<close>.\<close>

definition key_error :: "error + 'a \<Rightarrow> bool" where
  "key_error r = (case r of Inl (KeyError k) \<Rightarrow> True | _ \<Rightarrow> False)"

text \<open>The usual envelope: one entry with one change that carries the value.\<close>

definition wrap_payload :: "json \<Rightarrow> json" where
  "wrap_payload val =
    JDict [(lit ''object'', JStr (lit ''whatsapp_business_account'')),
           (lit ''entry'', JList [JDict [(lit ''id'', JStr (lit ''BIZ_ID'')),
              (lit ''changes'', JList [JDict [(lit ''value'', val),
                                              (lit ''field'', JStr (lit ''messages''))]])]])]"

section \<open>The order of the callbacks\<close>

text \<open>
  What the dispatcher is to do, as a list of events: for each notification in order, its
  messages in payload order if a message callback is registered, then its statuses in
  payload order if a status callback is registered. \<open>invoke\<close> is the call made for one
  event, with the handler's client and the event's notification.
\<close>

datatype event =
    MessageEvent WebhookNotification Message
  | StatusEvent WebhookNotification Status

definition events_of :: "('c, 'st) WebhookHandler \<Rightarrow> WebhookNotification \<Rightarrow> event list" where
  "events_of h n =
    (case on_message h of None \<Rightarrow> [] | Some f \<Rightarrow> map (MessageEvent n) (messages n)) @
    (case on_status h of None \<Rightarrow> [] | Some g \<Rightarrow> map (StatusEvent n) (statuses n))"

fun invoke :: "('c, 'st) WebhookHandler \<Rightarrow> event \<Rightarrow> 'st effect" where
  "invoke h (MessageEvent n m) st =
    (case on_message h of None \<Rightarrow> (Inr (), st) | Some f \<Rightarrow> f (client h) n m st)"
| "invoke h (StatusEvent n s) st =
    (case on_status h of None \<Rightarrow> (Inr (), st) | Some g \<Rightarrow> g (client h) n s st)"

text \<open>
  Inputs to run the dispatcher on. A handler whose callbacks record each call in a log (the
  state): the client, the phone number id of the notification, and the id of the message
  or status; and a handler with no callback. A payload with two messages and one status,
  and a payload whose only message is the empty object, each with the bytes of its JSON
  text. \<open>sample_loads\<close> gives what \<open>json.loads\<close> returns for these two bodies (its value
  elsewhere is immaterial). \<open>empty_digest\<close> stands for a digest function; with it the
  signature \<open>sha256=\<close> verifies.
\<close>

definition recording_handler :: "(nat, (nat \<times> json \<times> json) list) WebhookHandler" where
  "recording_handler =
    \<lparr>app_secret = lit ''test_app_secret'', client = 123456,
     on_message = Some (\<lambda>c n m log.
        (Inr (), log @ [(c, phone_number_id (metadata n), msg_id m)])),
     on_status = Some (\<lambda>c n s log.
        (Inr (), log @ [(c, phone_number_id (metadata n), status_id s)]))\<rparr>"

definition silent_handler :: "(nat, (nat \<times> json \<times> json) list) WebhookHandler" where
  "silent_handler =
    \<lparr>app_secret = lit ''test_app_secret'', client = 123456, on_message = None, on_status = None\<rparr>"

definition sample_message :: "string \<Rightarrow> json" where
  "sample_message i =
    JDict [(lit ''id'', JStr (lit i)), (lit ''from'', JStr (lit ''5511999999999'')),
           (lit ''timestamp'', JStr (lit ''1700000000'')), (lit ''type'', JStr (lit ''text'')),
           (lit ''text'', JDict [(lit ''body'', JStr (lit ''Hi''))])]"

definition sample_status :: "string \<Rightarrow> json" where
  "sample_status i =
    JDict [(lit ''id'', JStr (lit i)), (lit ''status'', JStr (lit ''delivered'')),
           (lit ''timestamp'', JStr (lit ''1700000000'')),
           (lit ''recipient_id'', JStr (lit ''5511999999999''))]"

definition sample_payload :: json where
  "sample_payload =
    wrap_payload (JDict [(lit ''metadata'', JDict [(lit ''phone_number_id'', JStr (lit ''123456''))]),
      (lit ''messages'', JList [sample_message ''wamid.1'', sample_message ''wamid.2'']),
      (lit ''statuses'', JList [sample_status ''wamid.s1''])])"

definition malformed_payload :: json where
  "malformed_payload = wrap_payload (JDict [(lit ''messages'', JList [JDict []])])"

definition text_bytes :: "string \<Rightarrow> bytes" where
  "text_bytes s = map of_nat (lit s)"

definition sample_body :: bytes where
  \<open>sample_body = text_bytes
    (''{"object": "whatsapp_business_account", "entry": [{"id": "BIZ_ID", "changes": [{"value": '' @
     ''{"metadata": {"phone_number_id": "123456"}, "messages": ['' @
     ''{"id": "wamid.1", "from": "5511999999999", "timestamp": "1700000000", "type": "text", '' @
     ''"text": {"body": "Hi"}}, '' @
     ''{"id": "wamid.2", "from": "5511999999999", "timestamp": "1700000000", "type": "text", '' @
     ''"text": {"body": "Hi"}}], "statuses": ['' @
     ''{"id": "wamid.s1", "status": "delivered", "timestamp": "1700000000", '' @
     ''"recipient_id": "5511999999999"}]}, "field": "messages"}]}]}'')\<close>

definition malformed_body :: bytes where
  \<open>malformed_body = text_bytes
    (''{"object": "whatsapp_business_account", "entry": [{"id": "BIZ_ID", "changes": [{"value": '' @
     ''{"messages": [{}]}, "field": "messages"}]}]}'')\<close>

definition sample_loads :: "bytes \<Rightarrow> error + json" where
  "sample_loads b =
    (if b = malformed_body then Inr malformed_payload
     else if b = sample_body then Inr sample_payload
     else Inl JSONDecodeError)"

definition empty_digest :: "bytes \<Rightarrow> bytes \<Rightarrow> bytes" where
  "empty_digest key msg = []"

section \<open>Facts about the primitives\<close>

lemma ok_simps [simp]: "ok (Inl e) = False" "ok (Inr x) = True"
  by (simp_all add: ok_def)

lemma ok_iff: "ok r \<longleftrightarrow> (\<exists>x. r = Inr x)"
  by (cases r) simp_all

lemma bind_simps [simp]: "bind (Inl e) f = Inl e" "bind (Inr x) f = f x"
  by (simp_all add: bind_def)

lemma bind_eq_Inr_iff: "bind r f = Inr y \<longleftrightarrow> (\<exists>x. r = Inr x \<and> f x = Inr y)"
  by (cases r) simp_all

lemma ok_bind_projr: "ok (bind r f) = (ok r \<and> ok (f (projr r)))"
  by (cases r) simp_all

lemma lit_eq_iff [simp]: "lit a = lit b \<longleftrightarrow> a = b"
  by (simp add: lit_def inj_map_eq_map[OF inj_of_char])

lemma lit_Nil [simp]: "lit [] = []"
  by (simp add: lit_def)

lemma lit_Nil_iff [simp]: "lit s = [] \<longleftrightarrow> s = []" "[] = lit s \<longleftrightarrow> s = []"
  by (auto simp add: lit_def)

lemma startswith_append [simp]: "startswith (p @ s) p"
  by (simp add: startswith_def)

lemma removeprefix_append [simp]: "removeprefix (p @ s) p = s"
  by (simp add: removeprefix_def)

lemma getitem_lookup:
  "getitem j k = (case lookup j k of Some v \<Rightarrow> Inr v
                  | None \<Rightarrow> Inl (if is_dict j then KeyError k else TypeError))"
  by (cases j) (simp_all add: lookup_def is_dict_def split: option.splits)

lemma get_default_lookup:
  "get_default j k d = (if is_dict j then Inr (case lookup j k of Some v \<Rightarrow> v | None \<Rightarrow> d)
                        else Inl AttributeError)"
  by (cases j) (simp_all add: lookup_def is_dict_def split: option.splits)

lemma ok_getitem: "ok (getitem j k) = (lookup j k \<noteq> None)"
  by (simp add: getitem_lookup split: option.splits)

lemma projr_getitem: "lookup j k = Some v \<Longrightarrow> projr (getitem j k) = v"
  by (simp add: getitem_lookup)

lemma ok_get_default: "ok (get_default j k d) = is_dict j"
  by (simp add: get_default_lookup)

lemma has_keys_Nil: "has_keys j [] = is_dict j"
  by (cases j) (simp_all add: has_keys_def is_dict_def)

lemma has_keys_Cons: "has_keys j (k # ks) = (lookup j k \<noteq> None \<and> has_keys j ks)"
  by (cases j) (simp_all add: has_keys_def lookup_def)

lemma lookup_is_dict: "lookup j k = Some v \<Longrightarrow> is_dict j"
  by (cases j) (simp_all add: lookup_def is_dict_def)


lemmas ok_rules = ok_bind_projr ok_getitem ok_get_default member_has_keys_def has_keys_Cons
  has_keys_Nil projr_getitem

section \<open>Verifying a signature\<close>

lemma hexchar_ascii: "n < 16 \<Longrightarrow> hexchar n < 128"
  by (simp add: hexchar_def)

lemma hexchar_octet:
  "hexchar (unat (b :: 8 word) div 16) < 128" "hexchar (unat b mod 16) < 128"
proof -
  have "unat b < 256" using unsigned_less [of b, where ?'a = nat] by simp
  then have "unat b div 16 < 16" by simp
  then show "hexchar (unat b div 16) < 128" by (rule hexchar_ascii)
  show "hexchar (unat b mod 16) < 128" by (rule hexchar_ascii) simp
qed

lemma is_ascii_hexdigest [simp]: "is_ascii (hexdigest bs)"
  by (induction bs) (simp_all add: is_ascii_def hexdigest_def hexchar_octet)

text \<open>
  The signature the provider computes is accepted, whenever the secret can be encoded (it
  has no surrogate code point).
\<close>

lemma verify_signature_valid:
  "encode secret = Inr key \<Longrightarrow>
   verify_signature hm body (lit ''sha256='' @ hexdigest (hm key body)) secret = Inr ()"
  by (simp add: verify_signature_def compare_digest_def)

text \<open>An ASCII signature that differs from the digest is a mismatch.\<close>

lemma verify_signature_mismatch_ascii:
  "encode secret = Inr key \<Longrightarrow> is_ascii h \<Longrightarrow> h \<noteq> hexdigest (hm key body) \<Longrightarrow>
   verify_signature hm body (lit ''sha256='' @ h) secret
     = Inl (WebhookVerificationError ''Signature mismatch'')"
  by (auto simp add: verify_signature_def compare_digest_def)

lemma encode_test_app_secret:
  "encode (lit ''test_app_secret'')
     = Inr [116, 101, 115, 116, 95, 97, 112, 112, 95, 115, 101, 99, 114, 101, 116]"
  by (simp add: encode_def lit_def utf8_def)

text \<open>
  C2. A signature \<open>"sha256=" + h\<close> with \<open>h\<close> different from the digest is to be rejected
  as a signature mismatch. With body \<open>b"body"\<close>, secret \<open>"test_app_secret"\<close> and
  \<open>h\<close> the single code point U+00E9 (not ASCII, so different from every hexadecimal
  digest), \<open>hmac.compare_digest\<close> raises \<open>TypeError\<close> and \<open>verify_signature\<close> lets it
  through: no \<open>WebhookVerificationError\<close> is raised, whatever the digest function.
\<close>

theorem verify_signature_non_ascii_TypeError:
  "verify_signature hm [98, 111, 100, 121] (lit ''sha256='' @ [233]) (lit ''test_app_secret'')
     = Inl TypeError"
  by (simp add: verify_signature_def encode_test_app_secret compare_digest_def is_ascii_def)

text \<open>
  C3. A signature that does not start with \<open>sha256=\<close> is rejected with the
  missing-prefix \<open>WebhookVerificationError\<close>, for every body, every secret (also one that
  cannot be encoded) and every digest function: the check comes before the digest.
\<close>

theorem verify_signature_malformed:
  "\<not> startswith signature (lit ''sha256='') \<Longrightarrow>
   verify_signature hm body signature secret
     = Inl (WebhookVerificationError ''Invalid signature format: missing 'sha256=' prefix'')"
  by (simp add: verify_signature_def)

theorem verify_signature_malformed_witness:
  "\<not> startswith (lit ''invalid'') (lit ''sha256='') \<and>
   verify_signature (\<lambda>key msg. []) [98, 111, 100, 121] (lit ''invalid'') (lit ''test_app_secret'')
     = Inl (WebhookVerificationError ''Invalid signature format: missing 'sha256=' prefix'')"
  using verify_signature_malformed
    [of "lit ''invalid''" "\<lambda>key msg. []" "[98, 111, 100, 121]" "lit ''test_app_secret''"]
  by (simp add: startswith_def lit_def)

section \<open>When the parser returns\<close>











lemma contains_dict: "is_dict j \<Longrightarrow> contains k j = Inr (lookup j k \<noteq> None)"
  by (cases j) (simp_all add: is_dict_def lookup_def)

lemma ok_keys2: "ok (bind (getitem sub a) (\<lambda>x. bind (getitem sub b) (\<lambda>y. Inr (g x y)))) = has_keys sub [a, b]"
  by (auto simp add: ok_rules dest: lookup_is_dict split: option.splits)

lemma ok_keys3: "ok (bind (getitem sub a) (\<lambda>x. bind (getitem sub b) (\<lambda>y. bind (getitem sub c) (\<lambda>z. Inr (g x y z)))))
   = has_keys sub [a, b, c]"
  by (auto simp add: ok_rules dest: lookup_is_dict split: option.splits)

lemma ok_keys4: "ok (bind (getitem sub a) (\<lambda>x. bind (getitem sub b) (\<lambda>y. bind (getitem sub c) (\<lambda>z.
     bind (getitem sub d) (\<lambda>w. Inr (g x y z w))))))
   = has_keys sub [a, b, c, d]"
  by (auto simp add: ok_rules dest: lookup_is_dict split: option.splits)

lemma getitem_Some: "lookup j k = Some v \<Longrightarrow> getitem j k = Inr v"
  by (simp add: getitem_lookup)





lemma ok_list_comp: "ok (list_comp f xs) = list_all (\<lambda>x. ok (f x)) xs"
  by (induction xs) (simp_all add: ok_bind_projr)

lemma ok_parse_status_error: "ok (parse_status_error e) = has_keys e [lit ''code'', lit ''title'']"
  by (simp add: parse_status_error_def ok_keys2)

lemma ok_iter_list_comp:
  "ok (bind (iter v) (\<lambda>xs. bind (list_comp f xs) (\<lambda>r. Inr (g r)))) = elements_ok (\<lambda>x. ok (f x)) v"
  by (cases "iter v") (simp_all add: elements_ok_def ok_bind_projr ok_list_comp)

lemma ok_conversation:
  "ok (bind (getitem conv a) (\<lambda>i. bind (getitem conv b) (\<lambda>orig. bind (getitem orig c) (\<lambda>ot. Inr (g i ot)))))
   = (has_keys conv [a] \<and> member_has_keys conv b [c])"
  by (auto simp add: ok_rules dest: lookup_is_dict split: option.splits)

lemma parse_status_not_dict: "\<not> is_dict raw \<Longrightarrow> parse_status raw = Inl TypeError"
  by (cases raw) (simp_all add: parse_status_def is_dict_def)

lemma ok_status_rest:
  "ok (bind (getitem raw (lit ''id'')) (\<lambda>i.
       bind (getitem raw (lit ''status'')) (\<lambda>st.
       bind (getitem raw (lit ''timestamp'')) (\<lambda>ts.
       bind (getitem raw (lit ''recipient_id'')) (\<lambda>rid. Inr (g i st ts rid))))))
   = has_keys raw required_status_keys"
  by (simp add: ok_keys4 required_status_keys_def)

lemma ok_part:
  "ok (bind (if lookup raw k \<noteq> None then bind (getitem raw k) f else Inr None) g)
   = ((case lookup raw k of None \<Rightarrow> True | Some v \<Rightarrow> ok (f v)) \<and>
      ok (g (if lookup raw k \<noteq> None then projr (bind (getitem raw k) f) else None)))"
  by (cases "lookup raw k") (simp_all add: ok_bind_projr getitem_Some)

lemma ok_parse_status: "ok (parse_status raw) = status_ok raw"
proof (cases "is_dict raw")
  case False
  then show ?thesis by (auto simp add: parse_status_not_dict status_ok_def required_status_keys_def has_keys_Cons has_keys_Nil)
next
  case True
  have "ok (parse_status raw) =
    ((case lookup raw (lit ''conversation'') of None \<Rightarrow> True
      | Some conv \<Rightarrow> has_keys conv [lit ''id''] \<and> member_has_keys conv (lit ''origin'') [lit ''type'']) \<and>
     (case lookup raw (lit ''pricing'') of None \<Rightarrow> True
      | Some p \<Rightarrow> has_keys p [lit ''billable'', lit ''pricing_model'', lit ''category'']) \<and>
     (case lookup raw (lit ''errors'') of None \<Rightarrow> True
      | Some es \<Rightarrow> elements_ok (\<lambda>e. has_keys e [lit ''code'', lit ''title'']) es) \<and>
     has_keys raw required_status_keys)"
    unfolding parse_status_def
    apply (simp only: contains_dict [OF True] bind_simps)
    apply (subst ok_part)
    apply (subst ok_part)
    apply (subst ok_part)
    apply (simp only: ok_status_rest ok_conversation ok_keys3 ok_iter_list_comp ok_parse_status_error)
    done
  then show ?thesis by (simp add: status_ok_def optional_parts_ok_def)
qed


lemma is_dict_JDict [simp]: "is_dict (JDict m)"
  by (simp add: is_dict_def)

lemma lookup_empty [simp]: "lookup (JDict []) k = None"
  by (simp add: lookup_def)








section \<open>Content of a message\<close>


lemma get_default_Some: "lookup j k = Some v \<Longrightarrow> get_default j k d = Inr v"
  by (cases j) (simp_all add: lookup_def)

lemma get_default_None: "is_dict j \<Longrightarrow> lookup j k = None \<Longrightarrow> get_default j k d = Inr d"
  by (simp add: get_default_lookup)

text \<open>
  C6. A quick-reply message (type \<open>button\<close>, with \<open>button.payload\<close> and
  \<open>button.text\<close>) and an interactive button reply (type \<open>interactive\<close>, inner type
  \<open>button_reply\<close>, with \<open>button_reply.id\<close> and \<open>button_reply.title\<close>) both
  parse to \<open>ButtonReplyContent\<close>: the first with id the payload and title the text, the
  second with the reply's id and title. This holds for all values of these fields, strings
  in particular, and whatever other keys the objects carry.
\<close>

theorem button_shapes_normalize:
  "(lookup msg (lit ''type'') = Some (JStr (lit ''button'')) \<and>
    lookup msg (lit ''button'') = Some button \<and>
    lookup button (lit ''payload'') = Some p \<and> lookup button (lit ''text'') = Some t
    \<longrightarrow> parse_content msg = Inr (ButtonReplyContent p t)) \<and>
   (lookup msg' (lit ''type'') = Some (JStr (lit ''interactive'')) \<and>
    lookup msg' (lit ''interactive'') = Some interactive \<and>
    lookup interactive (lit ''type'') = Some (JStr (lit ''button_reply'')) \<and>
    lookup interactive (lit ''button_reply'') = Some reply \<and>
    lookup reply (lit ''id'') = Some i \<and> lookup reply (lit ''title'') = Some t'
    \<longrightarrow> parse_content msg' = Inr (ButtonReplyContent i t'))"
  by (simp add: parse_content_def get_default_Some getitem_Some media_types_def)

theorem button_shapes_normalize_witness:
  "parse_content (JDict [(lit ''type'', JStr (lit ''button'')),
       (lit ''button'', JDict [(lit ''payload'', JStr (lit ''btn_payload'')),
                               (lit ''text'', JStr (lit ''Quick Reply''))])])
     = Inr (ButtonReplyContent (JStr (lit ''btn_payload'')) (JStr (lit ''Quick Reply''))) \<and>
   parse_content (JDict [(lit ''type'', JStr (lit ''interactive'')),
       (lit ''interactive'', JDict [(lit ''type'', JStr (lit ''button_reply'')),
          (lit ''button_reply'', JDict [(lit ''id'', JStr (lit ''btn_1'')),
                                        (lit ''title'', JStr (lit ''Yes''))])])])
     = Inr (ButtonReplyContent (JStr (lit ''btn_1'')) (JStr (lit ''Yes'')))"
  using button_shapes_normalize
    [of "JDict [(lit ''type'', JStr (lit ''button'')),
       (lit ''button'', JDict [(lit ''payload'', JStr (lit ''btn_payload'')),
                               (lit ''text'', JStr (lit ''Quick Reply''))])]"
        "JDict [(lit ''payload'', JStr (lit ''btn_payload'')), (lit ''text'', JStr (lit ''Quick Reply''))]"
        "JStr (lit ''btn_payload'')" "JStr (lit ''Quick Reply'')"
        "JDict [(lit ''type'', JStr (lit ''interactive'')),
       (lit ''interactive'', JDict [(lit ''type'', JStr (lit ''button_reply'')),
          (lit ''button_reply'', JDict [(lit ''id'', JStr (lit ''btn_1'')),
                                        (lit ''title'', JStr (lit ''Yes''))])])]"
        "JDict [(lit ''type'', JStr (lit ''button_reply'')),
          (lit ''button_reply'', JDict [(lit ''id'', JStr (lit ''btn_1'')),
                                        (lit ''title'', JStr (lit ''Yes''))])]"
        "JDict [(lit ''id'', JStr (lit ''btn_1'')), (lit ''title'', JStr (lit ''Yes''))]"
        "JStr (lit ''btn_1'')" "JStr (lit ''Yes'')"]
  by (simp add: lookup_def)

text \<open>
  C7. For a message object whose \<open>type\<close> is none of the recognized tags (also when it is
  absent or not a string), and for a message object of type \<open>interactive\<close> whose
  \<open>interactive\<close> object has an inner type that is neither \<open>button_reply\<close> nor
  \<open>list_reply\<close>, content parsing returns \<open>UnsupportedContent\<close> whose \<open>raw\<close> is the
  message object itself, unchanged.
\<close>

theorem unsupported_keeps_raw:
  "is_dict msg \<Longrightarrow>
   (lookup msg (lit ''type'') \<notin> set (map (\<lambda>t. Some (JStr t)) recognized_types)
    \<longrightarrow> parse_content msg = Inr (UnsupportedContent msg)) \<and>
   (lookup msg (lit ''type'') = Some (JStr (lit ''interactive'')) \<and>
    lookup msg (lit ''interactive'') = Some interactive \<and> is_dict interactive \<and>
    lookup interactive (lit ''type'') \<noteq> Some (JStr (lit ''button_reply'')) \<and>
    lookup interactive (lit ''type'') \<noteq> Some (JStr (lit ''list_reply''))
    \<longrightarrow> parse_content msg = Inr (UnsupportedContent msg))"
proof (intro conjI impI)
  assume d: "is_dict msg"
  assume n: "lookup msg (lit ''type'') \<notin> set (map (\<lambda>t. Some (JStr t)) recognized_types)"
  show "parse_content msg = Inr (UnsupportedContent msg)"
  proof (cases "lookup msg (lit ''type'')")
    case None
    with d show ?thesis
      by (simp add: parse_content_def get_default_None media_types_def)
  next
    case (Some mt)
    with n show ?thesis
      by (cases mt)
         (auto simp add: parse_content_def get_default_Some recognized_types_def media_types_def)
  qed
next
  assume d: "is_dict msg"
  assume a: "lookup msg (lit ''type'') = Some (JStr (lit ''interactive'')) \<and>
    lookup msg (lit ''interactive'') = Some interactive \<and> is_dict interactive \<and>
    lookup interactive (lit ''type'') \<noteq> Some (JStr (lit ''button_reply'')) \<and>
    lookup interactive (lit ''type'') \<noteq> Some (JStr (lit ''list_reply''))"
  then show "parse_content msg = Inr (UnsupportedContent msg)"
    by (cases "lookup interactive (lit ''type'')")
       (simp_all add: parse_content_def get_default_Some getitem_Some get_default_None media_types_def)
qed

theorem unsupported_keeps_raw_witness:
  "is_dict (JDict [(lit ''id'', JStr (lit ''wamid.unk'')), (lit ''type'', JStr (lit ''contacts'')),
                   (lit ''contacts'', JList [JDict []])]) \<and>
   parse_content (JDict [(lit ''id'', JStr (lit ''wamid.unk'')), (lit ''type'', JStr (lit ''contacts'')),
                   (lit ''contacts'', JList [JDict []])])
     = Inr (UnsupportedContent (JDict [(lit ''id'', JStr (lit ''wamid.unk'')),
          (lit ''type'', JStr (lit ''contacts'')), (lit ''contacts'', JList [JDict []])])) \<and>
   parse_content (JDict [(lit ''type'', JStr (lit ''interactive'')),
                   (lit ''interactive'', JDict [(lit ''type'', JStr (lit ''unknown_type''))])])
     = Inr (UnsupportedContent (JDict [(lit ''type'', JStr (lit ''interactive'')),
                   (lit ''interactive'', JDict [(lit ''type'', JStr (lit ''unknown_type''))])]))"
  using unsupported_keeps_raw
    [of "JDict [(lit ''id'', JStr (lit ''wamid.unk'')), (lit ''type'', JStr (lit ''contacts'')),
                   (lit ''contacts'', JList [JDict []])]"]
    unsupported_keeps_raw
    [of "JDict [(lit ''type'', JStr (lit ''interactive'')),
                   (lit ''interactive'', JDict [(lit ''type'', JStr (lit ''unknown_type''))])]"
        "JDict [(lit ''type'', JStr (lit ''unknown_type''))]"]
  by (simp add: lookup_def recognized_types_def media_types_def)

section \<open>Parsing a payload\<close>


lemma from_dict_message_without_keys:
  "from_dict (wrap_payload (JDict [(lit ''messages'', JList [JDict []])]))
     = Inl (KeyError (lit ''id''))"
  by (simp add: wrap_payload_def from_dict_def parse_change_def parse_message_def)

text \<open>
  C9. Parsing the empty object returns the empty list. Parsing a payload with one entry
  holding one change, whose value has a metadata object and none of the keys
  \<open>contacts\<close>, \<open>messages\<close>, \<open>statuses\<close>, returns exactly one notification; its
  contacts, messages and statuses are empty, and a metadata key that is missing is the
  empty string.
\<close>

theorem from_dict_empty_and_metadata_only:
  "from_dict (JDict []) = Inr [] \<and>
   (lookup data (lit ''entry'') = Some (JList [entry]) \<and>
    lookup entry (lit ''changes'') = Some (JList [change]) \<and>
    lookup change (lit ''value'') = Some val \<and>
    lookup val (lit ''metadata'') = Some meta \<and> is_dict meta \<and>
    lookup val (lit ''contacts'') = None \<and>
    lookup val (lit ''messages'') = None \<and>
    lookup val (lit ''statuses'') = None \<longrightarrow>
    from_dict data =
      Inr [\<lparr>metadata = WebhookMetadata
               (case lookup meta (lit ''display_phone_number'') of None \<Rightarrow> JStr [] | Some v \<Rightarrow> v)
               (case lookup meta (lit ''phone_number_id'') of None \<Rightarrow> JStr [] | Some v \<Rightarrow> v),
            contacts = [], messages = [], statuses = []\<rparr>])"
proof (intro conjI impI, goal_cases)
  case 1
  show ?case by (simp add: from_dict_def)
next
  case 2
  then have e: "lookup data (lit ''entry'') = Some (JList [entry])"
    and c: "lookup entry (lit ''changes'') = Some (JList [change])"
    and v: "lookup change (lit ''value'') = Some val"
    and m: "lookup val (lit ''metadata'') = Some meta" and dm: "is_dict meta"
    and n: "lookup val (lit ''contacts'') = None" "lookup val (lit ''messages'') = None"
           "lookup val (lit ''statuses'') = None"
    by simp_all
  have dv: "is_dict val" using m by (rule lookup_is_dict)
  have "parse_change change =
     Inr \<lparr>metadata = WebhookMetadata
              (case lookup meta (lit ''display_phone_number'') of None \<Rightarrow> JStr [] | Some v \<Rightarrow> v)
              (case lookup meta (lit ''phone_number_id'') of None \<Rightarrow> JStr [] | Some v \<Rightarrow> v),
           contacts = [], messages = [], statuses = []\<rparr>"
    using dm dv
    by (simp add: parse_change_def get_default_Some [OF v] get_default_Some [OF m]
          get_default_None [OF dv] n get_default_lookup [of meta])
  then show ?case
    by (simp add: from_dict_def get_default_Some [OF e] get_default_Some [OF c])
qed

theorem from_dict_empty_and_metadata_only_witness:
  "from_dict (JDict []) = Inr [] \<and>
   from_dict (wrap_payload (JDict [(lit ''metadata'',
                JDict [(lit ''display_phone_number'', JStr (lit ''15550001111''))])]))
     = Inr [\<lparr>metadata = WebhookMetadata (JStr (lit ''15550001111'')) (JStr []),
             contacts = [], messages = [], statuses = []\<rparr>]"
  using from_dict_empty_and_metadata_only
    [of "wrap_payload (JDict [(lit ''metadata'',
                JDict [(lit ''display_phone_number'', JStr (lit ''15550001111''))])])"
        "JDict [(lit ''id'', JStr (lit ''BIZ_ID'')),
              (lit ''changes'', JList [JDict [(lit ''value'', JDict [(lit ''metadata'',
                JDict [(lit ''display_phone_number'', JStr (lit ''15550001111''))])]),
                                              (lit ''field'', JStr (lit ''messages''))]])]"
        "JDict [(lit ''value'', JDict [(lit ''metadata'',
                JDict [(lit ''display_phone_number'', JStr (lit ''15550001111''))])]),
                                              (lit ''field'', JStr (lit ''messages''))]"
        "JDict [(lit ''metadata'',
                JDict [(lit ''display_phone_number'', JStr (lit ''15550001111''))])]"
        "JDict [(lit ''display_phone_number'', JStr (lit ''15550001111''))]"]
  by (simp add: wrap_payload_def lookup_def)



section \<open>Parsing a status\<close>


lemma parse_status_fields:
  assumes d: "is_dict raw" and p: "parse_status raw = Inr s"
  shows "(conversation s = None) = (lookup raw (lit ''conversation'') = None) \<and>
         (pricing s = None) = (lookup raw (lit ''pricing'') = None) \<and>
         (errors s = None) = (lookup raw (lit ''errors'') = None)"
  using p unfolding parse_status_def
  by (simp only: contains_dict [OF d] bind_simps)
     (auto simp add: bind_eq_Inr_iff split: if_splits)

text \<open>
  C8 as stated does not hold: a status object with all four required keys and an empty
  \<open>conversation\<close> object makes \<open>_parse_status\<close> raise \<open>KeyError('id')\<close>, for the
  \<open>id\<close> of the conversation.
\<close>

theorem parse_status_conversation_counterexample:
  "has_keys (JDict [(lit ''id'', JStr (lit ''wamid.status1'')), (lit ''status'', JStr (lit ''sent'')),
                    (lit ''timestamp'', JStr (lit ''1700000000'')),
                    (lit ''recipient_id'', JStr (lit ''5511999999999'')),
                    (lit ''conversation'', JDict [])]) required_status_keys \<and>
   parse_status (JDict [(lit ''id'', JStr (lit ''wamid.status1'')), (lit ''status'', JStr (lit ''sent'')),
                    (lit ''timestamp'', JStr (lit ''1700000000'')),
                    (lit ''recipient_id'', JStr (lit ''5511999999999'')),
                    (lit ''conversation'', JDict [])])
     = Inl (KeyError (lit ''id''))"
  by (simp add: has_keys_def required_status_keys_def parse_status_def)

text \<open>
  C8, amended. For a status object, \<open>_parse_status\<close> returns exactly when the four
  required keys \<open>id\<close>, \<open>status\<close>, \<open>timestamp\<close>, \<open>recipient_id\<close> are present and each
  optional part that is present is well formed (a conversation with \<open>id\<close> and
  \<open>origin.type\<close>; a pricing with \<open>billable\<close>, \<open>pricing_model\<close>, \<open>category\<close>; errors
  that can be iterated, each an object with \<open>code\<close> and \<open>title\<close>); otherwise it raises.
  When it returns, each of \<open>conversation\<close>, \<open>pricing\<close>, \<open>errors\<close> is \<open>None\<close> exactly
  when its key is absent from the object.
\<close>

theorem parse_status_returns_iff:
  "is_dict raw \<Longrightarrow>
   (\<exists>s. parse_status raw = Inr s)
     = (has_keys raw required_status_keys \<and> optional_parts_ok raw) \<and>
   (\<forall>s. parse_status raw = Inr s \<longrightarrow>
      (conversation s = None) = (lookup raw (lit ''conversation'') = None) \<and>
      (pricing s = None) = (lookup raw (lit ''pricing'') = None) \<and>
      (errors s = None) = (lookup raw (lit ''errors'') = None))"
  using ok_parse_status [of raw] parse_status_fields [of raw]
  by (auto simp add: ok_iff status_ok_def)

theorem parse_status_returns_iff_witness:
  "is_dict (JDict [(lit ''id'', JStr (lit ''wamid.fail'')), (lit ''status'', JStr (lit ''failed'')),
                   (lit ''timestamp'', JStr (lit ''1700000000'')),
                   (lit ''recipient_id'', JStr (lit ''5511999999999'')),
                   (lit ''errors'', JList [JDict [(lit ''code'', JInt 131047),
                                                   (lit ''title'', JStr (lit ''Message failed to send''))]])]) \<and>
   parse_status (JDict [(lit ''id'', JStr (lit ''wamid.fail'')), (lit ''status'', JStr (lit ''failed'')),
                   (lit ''timestamp'', JStr (lit ''1700000000'')),
                   (lit ''recipient_id'', JStr (lit ''5511999999999'')),
                   (lit ''errors'', JList [JDict [(lit ''code'', JInt 131047),
                                                   (lit ''title'', JStr (lit ''Message failed to send''))]])])
     = Inr \<lparr>status_id = JStr (lit ''wamid.fail''), status = JStr (lit ''failed''),
            status_timestamp = JStr (lit ''1700000000''), recipient_id = JStr (lit ''5511999999999''),
            conversation = None, pricing = None,
            errors = Some [StatusError (JInt 131047) (JStr (lit ''Message failed to send''))]\<rparr> \<and>
   (\<exists>s. parse_status (JDict [(lit ''id'', JStr (lit ''wamid.fail'')), (lit ''status'', JStr (lit ''failed'')),
                   (lit ''timestamp'', JStr (lit ''1700000000'')),
                   (lit ''recipient_id'', JStr (lit ''5511999999999'')),
                   (lit ''errors'', JList [JDict [(lit ''code'', JInt 131047),
                                                   (lit ''title'', JStr (lit ''Message failed to send''))]])]) = Inr s)"
  using parse_status_returns_iff
    [of "JDict [(lit ''id'', JStr (lit ''wamid.fail'')), (lit ''status'', JStr (lit ''failed'')),
                   (lit ''timestamp'', JStr (lit ''1700000000'')),
                   (lit ''recipient_id'', JStr (lit ''5511999999999'')),
                   (lit ''errors'', JList [JDict [(lit ''code'', JInt 131047),
                                                   (lit ''title'', JStr (lit ''Message failed to send''))]])]"]
  by (simp add: parse_status_def parse_status_error_def)

section \<open>Incomplete messages\<close>









lemma key_error_simps [simp]: "key_error (Inl (KeyError k))" "\<not> key_error (Inr x)"
  by (simp_all add: key_error_def)













section \<open>Dispatch\<close>


lemma for_each_append:
  "for_each f (xs @ ys) st =
    (case for_each f xs st of (Inl e, st') \<Rightarrow> (Inl e, st') | (Inr u, st') \<Rightarrow> for_each f ys st')"
  by (induction xs arbitrary: st) (auto split: prod.splits sum.splits)

lemma for_each_map: "for_each f (map g xs) st = for_each (\<lambda>x. f (g x)) xs st"
  by (induction xs arbitrary: st) (auto split: prod.splits sum.splits)

lemma for_each_concat:
  "for_each f (concat (map g xs)) st = for_each (\<lambda>x. for_each f (g x)) xs st"
  by (induction xs arbitrary: st) (auto simp add: for_each_append split: prod.splits sum.splits)

lemma invoke_message: "on_message h = Some f \<Longrightarrow> invoke h (MessageEvent n m) = f (client h) n m"
  by (rule ext) simp

lemma invoke_status: "on_status h = Some g \<Longrightarrow> invoke h (StatusEvent n s) = g (client h) n s"
  by (rule ext) simp

lemma dispatch_events: "dispatch h n st = for_each (invoke h) (events_of h n) st"
proof (cases "on_message h")
  case None
  then show ?thesis
    by (cases "on_status h")
       (simp_all add: dispatch_def events_of_def for_each_map invoke_status)
next
  case (Some f)
  then show ?thesis
    by (cases "on_status h")
       (simp_all add: dispatch_def events_of_def for_each_append for_each_map invoke_message
          invoke_status split: prod.splits sum.splits)
qed

lemma for_each_dispatch:
  "for_each (dispatch h) ns st = for_each (invoke h) (concat (map (events_of h) ns)) st"
proof -
  have "dispatch h = (\<lambda>n. for_each (invoke h) (events_of h n))"
    by (intro ext) (rule dispatch_events)
  then show ?thesis by (simp add: for_each_concat)
qed

lemma events_of_no_handlers:
  "on_message h = None \<Longrightarrow> on_status h = None \<Longrightarrow> concat (map (events_of h) ns) = []"
  by (induction ns) (simp_all add: events_of_def)

text \<open>
  C4. When signature verification raises, \<open>handle\<close> raises the same exception and the
  state of the world is the one it started in. This holds for every decoder and every pair
  of callbacks, also ones that would raise or change the state: the body is not decoded,
  nothing is parsed and no callback is invoked.
\<close>

theorem handle_rejects_before_parsing:
  "verify_signature hm body signature (app_secret h) = Inl e \<Longrightarrow>
   handle hm loads h body signature st = (Inl e, st)"
  by (simp add: handle_def)

text \<open>
  C5, amended. For a body that is verified and decoded and whose payload parses, \<open>handle\<close>
  makes exactly the calls of the event list, in its order: notifications in source order,
  within each its messages in payload order (if a message callback is registered) and
  then its statuses in payload order (if a status callback is registered), each call with
  the client, the notification and the event; a callback that raises ends the dispatch
  with its exception. With no callback registered, \<open>handle\<close> returns and changes nothing.
  If the payload does not parse, \<open>handle\<close> raises the parser's exception and invokes no
  callback.
\<close>

theorem handle_dispatch_order:
  assumes "verify_signature hm body signature (app_secret h) = Inr ()"
    and "loads body = Inr data"
  shows "(\<forall>ns. from_dict data = Inr ns \<longrightarrow>
            handle hm loads h body signature st
              = for_each (invoke h) (concat (map (events_of h) ns)) st \<and>
            (on_message h = None \<and> on_status h = None \<longrightarrow>
               handle hm loads h body signature st = (Inr (), st))) \<and>
         (\<forall>e. from_dict data = Inl e \<longrightarrow> handle hm loads h body signature st = (Inl e, st))"
  using assms
  by (auto simp add: handle_def for_each_dispatch events_of_no_handlers)


lemma verify_empty_digest_ok:
  "verify_signature empty_digest body (lit ''sha256='') (lit ''test_app_secret'') = Inr ()"
  using verify_signature_valid [OF encode_test_app_secret, of empty_digest body]
  by (simp add: empty_digest_def hexdigest_def)

lemma verify_empty_digest_bad:
  "verify_signature empty_digest body (lit ''sha256=bad'') (lit ''test_app_secret'')
     = Inl (WebhookVerificationError ''Signature mismatch'')"
proof -
  have "lit ''sha256=bad'' = lit ''sha256='' @ lit ''bad''" by (simp add: lit_def)
  moreover have "is_ascii (lit ''bad'')" by (simp add: is_ascii_def lit_def)
  moreover have "lit ''bad'' \<noteq> hexdigest (empty_digest k body)" for k
    by (simp add: empty_digest_def hexdigest_def)
  ultimately show ?thesis
    using verify_signature_mismatch_ascii [OF encode_test_app_secret, of "lit ''bad''" empty_digest body]
    by simp
qed

lemma sample_loads_malformed_body: "sample_loads malformed_body = Inr malformed_payload"
  by (simp add: sample_loads_def)

lemma sample_loads_sample_body: "sample_loads sample_body = Inr sample_payload"
proof -
  have "length sample_body \<noteq> length malformed_body"
    by (simp add: sample_body_def malformed_body_def text_bytes_def lit_def)
  then have "sample_body \<noteq> malformed_body" by auto
  then show ?thesis by (simp add: sample_loads_def)
qed

lemma parse_sample_message:
  "parse_message (sample_message i) =
     Inr \<lparr>msg_id = JStr (lit i), msg_from = JStr (lit ''5511999999999''),
          msg_timestamp = JStr (lit ''1700000000''), msg_type = JStr (lit ''text''),
          content = TextContent (JStr (lit ''Hi'')), msg_context = None\<rparr>"
  by (simp add: sample_message_def parse_message_def parse_content_def)

lemma parse_sample_status:
  "parse_status (sample_status i) =
     Inr \<lparr>status_id = JStr (lit i), status = JStr (lit ''delivered''),
          status_timestamp = JStr (lit ''1700000000''),
          recipient_id = JStr (lit ''5511999999999''),
          conversation = None, pricing = None, errors = None\<rparr>"
  by (simp add: sample_status_def parse_status_def)

lemma from_dict_sample_payload:
  "from_dict sample_payload =
    Inr [\<lparr>metadata = WebhookMetadata (JStr []) (JStr (lit ''123456'')), contacts = [],
          messages = [projr (parse_message (sample_message ''wamid.1'')),
                      projr (parse_message (sample_message ''wamid.2''))],
          statuses = [projr (parse_status (sample_status ''wamid.s1''))]\<rparr>]"
  by (simp add: sample_payload_def wrap_payload_def from_dict_def parse_change_def
        parse_sample_message parse_sample_status)

theorem handle_rejects_before_parsing_witness:
  "verify_signature empty_digest sample_body (lit ''sha256=bad'') (app_secret recording_handler)
     = Inl (WebhookVerificationError ''Signature mismatch'') \<and>
   handle empty_digest sample_loads recording_handler sample_body (lit ''sha256=bad'') []
     = (Inl (WebhookVerificationError ''Signature mismatch''), [])"
  using handle_rejects_before_parsing
    [of empty_digest sample_body "lit ''sha256=bad''" recording_handler
        "WebhookVerificationError ''Signature mismatch''" sample_loads "[]"]
  by (simp add: recording_handler_def verify_empty_digest_bad)

text \<open>
  C5 as stated does not hold: a body that is verified and decoded, with no callback
  registered, whose payload has the empty object as its only message, makes \<open>handle\<close>
  raise \<open>KeyError('id')\<close>; it does not complete without error.
\<close>

theorem handle_parse_error_counterexample:
  "verify_signature empty_digest malformed_body (lit ''sha256='') (app_secret silent_handler) = Inr () \<and>
   sample_loads malformed_body = Inr malformed_payload \<and>
   handle empty_digest sample_loads silent_handler malformed_body (lit ''sha256='') []
     = (Inl (KeyError (lit ''id'')), [])"
  using from_dict_message_without_keys
  by (simp add: handle_def silent_handler_def verify_empty_digest_ok sample_loads_malformed_body
        malformed_payload_def)

theorem handle_dispatch_order_witness:
  "verify_signature empty_digest sample_body (lit ''sha256='') (app_secret recording_handler) = Inr () \<and>
   sample_loads sample_body = Inr sample_payload \<and>
   handle empty_digest sample_loads recording_handler sample_body (lit ''sha256='') []
     = (Inr (), [(123456, JStr (lit ''123456''), JStr (lit ''wamid.1'')),
                 (123456, JStr (lit ''123456''), JStr (lit ''wamid.2'')),
                 (123456, JStr (lit ''123456''), JStr (lit ''wamid.s1''))]) \<and>
   handle empty_digest sample_loads silent_handler sample_body (lit ''sha256='') []
     = (Inr (), [])"
proof -
  have v: "verify_signature empty_digest sample_body (lit ''sha256='') (app_secret recording_handler) = Inr ()"
    by (simp add: recording_handler_def verify_empty_digest_ok)
  have v': "verify_signature empty_digest sample_body (lit ''sha256='') (app_secret silent_handler) = Inr ()"
    by (simp add: silent_handler_def verify_empty_digest_ok)
  note a = handle_dispatch_order
    [of empty_digest sample_body "lit ''sha256=''" recording_handler sample_loads sample_payload "[]",
     OF v sample_loads_sample_body]
  note b = handle_dispatch_order
    [of empty_digest sample_body "lit ''sha256=''" silent_handler sample_loads sample_payload "[]",
     OF v' sample_loads_sample_body]
  show ?thesis
    using a b v
    by (simp add: from_dict_sample_payload events_of_def recording_handler_def silent_handler_def
          parse_sample_message parse_sample_status sample_loads_sample_body)
qed

end
